theory Spec2Isabelle
  imports Main
begin

section \<open>Session validation against an identity provider (shared/auth/kratos.go)\<close>

text \<open>
  The package wraps the generated client of the identity provider. The provider and the
  client library are outside the package, so each remote operation is a field of the
  client record: a function from the provider's state to the result of the call and the
  provider's next state. The context argument of the Go methods only carries
  cancellation and is left out.
\<close>

subsection \<open>Dynamic values\<close>

text \<open>
  The trait bag has the Go type \<^verbatim>\<open>interface{}\<close> and is filled by the JSON decoder,
  which produces exactly: nil, bool, float64, string, a slice of such values, or a
  string-keyed map of such values. The numeric payload is never inspected by this package.
\<close>

datatype go_value =
    GoNil
  | GoBool bool
  | GoNumber int
  | GoString string
  | GoSlice "go_value list"
  | GoMap "string \<Rightarrow> go_value option"

text \<open>The comparison of an interface value with nil.\<close>

fun is_nil :: "go_value \<Rightarrow> bool" where
  "is_nil GoNil = True"
| "is_nil v = False"

text \<open>An instant; \<open>zero_time\<close> is the zero value of \<^verbatim>\<open>time.Time\<close>.\<close>

type_synonym time = int

definition zero_time :: time where
  "zero_time = 0"

subsection \<open>The library's payload types and accessors\<close>

text \<open>
  Only the fields this package reads are kept. A pointer that may be nil is an
  \<open>option\<close>. The generated accessors are nil-safe: on a nil receiver or an unset
  optional field they return the zero value of the result type.
\<close>

record VerifiableIdentityAddress =
  Via :: string
  Verified :: bool

record RecoveryIdentityAddress =
  RecoveryVia :: string

record Identity =
  identity_Id :: string
  identity_Traits :: go_value
  identity_VerifiableAddresses :: "VerifiableIdentityAddress list"
  identity_RecoveryAddresses :: "RecoveryIdentityAddress list"
  identity_CreatedAt :: "time option"
  identity_UpdatedAt :: "time option"

record Session =
  session_Active :: "bool option"
  session_Identity :: "Identity option"

definition GetVia :: "VerifiableIdentityAddress \<Rightarrow> string" where
  "GetVia addr = Via addr"

definition GetVerified :: "VerifiableIdentityAddress \<Rightarrow> bool" where
  "GetVerified addr = Verified addr"

definition GetRecoveryVia :: "RecoveryIdentityAddress \<Rightarrow> string" where
  "GetRecoveryVia addr = RecoveryVia addr"

definition GetId :: "Identity option \<Rightarrow> string" where
  "GetId p = (case p of None \<Rightarrow> '''' | Some i \<Rightarrow> identity_Id i)"

definition GetTraits :: "Identity option \<Rightarrow> go_value" where
  "GetTraits p = (case p of None \<Rightarrow> GoNil | Some i \<Rightarrow> identity_Traits i)"

definition GetCreatedAt :: "Identity option \<Rightarrow> time" where
  "GetCreatedAt p =
     (case p of None \<Rightarrow> zero_time
      | Some i \<Rightarrow> (case identity_CreatedAt i of None \<Rightarrow> zero_time | Some t \<Rightarrow> t))"

definition GetUpdatedAt :: "Identity option \<Rightarrow> time" where
  "GetUpdatedAt p =
     (case p of None \<Rightarrow> zero_time
      | Some i \<Rightarrow> (case identity_UpdatedAt i of None \<Rightarrow> zero_time | Some t \<Rightarrow> t))"

definition GetVerifiableAddresses :: "Identity option \<Rightarrow> VerifiableIdentityAddress list" where
  "GetVerifiableAddresses p =
     (case p of None \<Rightarrow> [] | Some i \<Rightarrow> identity_VerifiableAddresses i)"

definition GetRecoveryAddresses :: "Identity option \<Rightarrow> RecoveryIdentityAddress list" where
  "GetRecoveryAddresses p =
     (case p of None \<Rightarrow> [] | Some i \<Rightarrow> identity_RecoveryAddresses i)"

definition GetActive :: "Session option \<Rightarrow> bool" where
  "GetActive p =
     (case p of None \<Rightarrow> False
      | Some s \<Rightarrow> (case session_Active s of None \<Rightarrow> False | Some b \<Rightarrow> b))"

text \<open>The field read \<^verbatim>\<open>session.Identity\<close>; it is only reached on a non-nil session.\<close>

definition Identity_of :: "Session option \<Rightarrow> Identity option" where
  "Identity_of p = (case p of None \<Rightarrow> None | Some s \<Rightarrow> session_Identity s)"

subsection \<open>The result of a remote call\<close>

text \<open>
  \<^verbatim>\<open>Execute()\<close> returns a payload pointer, a response pointer and an error. When the
  error is nil the response is present; the package reads the response only then.
  \<open>ExecErr e st\<close> is a non-nil error \<open>e\<close>, with the status of the response if the
  library received one (the generated client turns every status from 300 upwards into an
  error). \<open>ExecOk st p\<close> is a nil error, the response's status \<open>st\<close> and the
  decoded payload \<open>p\<close>.
\<close>

datatype 'a execute_result =
    ExecErr string "int option"
  | ExecOk int "'a option"

definition StatusOK :: int where
  "StatusOK = 200"

definition StatusUnauthorized :: int where
  "StatusUnauthorized = 401"

record 'w KratosClient =
  public_ToSession :: "string \<Rightarrow> 'w \<Rightarrow> Session execute_result \<times> 'w"
  admin_GetIdentity :: "string \<Rightarrow> 'w \<Rightarrow> Identity execute_result \<times> 'w"
  admin_UpdateIdentity ::
    "string \<Rightarrow> (string \<Rightarrow> go_value option) \<Rightarrow> 'w \<Rightarrow> Identity execute_result \<times> 'w"

subsection \<open>The package's user record and errors\<close>

record KratosUser =
  ID :: string
  Email :: string
  Username :: string
  FirstName :: string
  LastName :: string
  Phone :: string
  SubscriptionPlan :: string
  Avatar :: string
  EmailVerified :: bool
  Active :: bool
  CreatedAt :: time
  UpdatedAt :: time
  Traits :: go_value

text \<open>
  One constructor for each \<^verbatim>\<open>fmt.Errorf\<close> of the functions modelled, in the order of
  the source; the argument is the wrapped error or the status that the message prints.
\<close>

datatype auth_error =
    SessionTokenRequired            \<comment> \<open>session token is required\<close>
  | SessionValidationFailed string  \<comment> \<open>session validation failed: (error)\<close>
  | InvalidSessionStatus int        \<comment> \<open>invalid session: status (n)\<close>
  | SessionNotActive                \<comment> \<open>session is not active\<close>
  | FailedToGetUser string          \<comment> \<open>failed to get user: (error)\<close>
  | UserNotFoundStatus int          \<comment> \<open>user not found: status (n)\<close>
  | FailedToUpdateUser string       \<comment> \<open>failed to update user: (error)\<close>
  | FailedToUpdateUserStatus int    \<comment> \<open>failed to update user: status (n)\<close>
  | UserNotInContext                \<comment> \<open>user not found in context\<close>

subsection \<open>Helper functions\<close>

definition getStringFromTraits :: "go_value \<Rightarrow> string \<Rightarrow> string" where
  "getStringFromTraits traits key =
     (if is_nil traits then ''''
      else (case traits of
              GoMap traitsMap \<Rightarrow>
                (case traitsMap key of
                   Some val \<Rightarrow> (case val of GoString str \<Rightarrow> str | _ \<Rightarrow> '''')
                 | None \<Rightarrow> '''')
            | _ \<Rightarrow> ''''))"

text \<open>The two \<^verbatim>\<open>for ... range\<close> loops of \<^verbatim>\<open>isEmailVerified\<close>.\<close>

fun verifiable_loop :: "VerifiableIdentityAddress list \<Rightarrow> bool" where
  "verifiable_loop [] = False"
| "verifiable_loop (addr # rest) =
     (if GetVia addr = ''email'' \<and> GetVerified addr then True else verifiable_loop rest)"

fun recovery_loop :: "RecoveryIdentityAddress list \<Rightarrow> bool" where
  "recovery_loop [] = False"
| "recovery_loop (addr # rest) =
     (if GetRecoveryVia addr = ''email'' then True else recovery_loop rest)"

definition isEmailVerified :: "'w KratosClient \<Rightarrow> string \<Rightarrow> 'w \<Rightarrow> bool \<times> 'w" where
  "isEmailVerified k userID w =
     (case admin_GetIdentity k userID w of
        (ExecErr err st, w') \<Rightarrow> (False, w')
      | (ExecOk status identity, w') \<Rightarrow>
          if status \<noteq> StatusOK then (False, w')
          else if length (GetVerifiableAddresses identity) > 0
                  \<and> verifiable_loop (GetVerifiableAddresses identity) then (True, w')
          else if length (GetRecoveryAddresses identity) > 0
                  \<and> recovery_loop (GetRecoveryAddresses identity) then (True, w')
          else (False, w'))"

subsection \<open>Session validation and user management\<close>

text \<open>The zero value of the struct, from which the composite literals start.\<close>

definition zero_user :: KratosUser where
  "zero_user =
     \<lparr>ID = '''', Email = '''', Username = '''', FirstName = '''', LastName = '''',
      Phone = '''', SubscriptionPlan = '''', Avatar = '''', EmailVerified = False,
      Active = False, CreatedAt = zero_time, UpdatedAt = zero_time, Traits = GoNil\<rparr>"

definition ValidateSession ::
    "'w KratosClient \<Rightarrow> string \<Rightarrow> 'w \<Rightarrow> (auth_error + KratosUser) \<times> 'w" where
  "ValidateSession k sessionToken w =
     (if sessionToken = '''' then (Inl SessionTokenRequired, w)
      else
        (case public_ToSession k sessionToken w of
           (ExecErr err st, w1) \<Rightarrow> (Inl (SessionValidationFailed err), w1)
         | (ExecOk status session, w1) \<Rightarrow>
             if status \<noteq> StatusOK then (Inl (InvalidSessionStatus status), w1)
             else if \<not> GetActive session then (Inl SessionNotActive, w1)
             else
               (let user0 = zero_user
                      \<lparr>ID := GetId (Identity_of session),
                       Active := GetActive session,
                       CreatedAt := GetCreatedAt (Identity_of session),
                       UpdatedAt := GetUpdatedAt (Identity_of session)\<rparr>;
                    traits = GetTraits (Identity_of session);
                    user1 =
                      (if \<not> is_nil traits then
                         user0
                           \<lparr>Traits := traits,
                            Email := getStringFromTraits traits ''email'',
                            Username := getStringFromTraits traits ''username'',
                            FirstName := getStringFromTraits traits ''first_name'',
                            LastName := getStringFromTraits traits ''last_name'',
                            Phone := getStringFromTraits traits ''phone'',
                            SubscriptionPlan := getStringFromTraits traits ''subscription_plan'',
                            Avatar := getStringFromTraits traits ''avatar''\<rparr>
                       else user0);
                    (verified, w2) = isEmailVerified k (GetId (Identity_of session)) w1
                in (Inr (user1\<lparr>EmailVerified := verified\<rparr>), w2))))"

definition GetUser ::
    "'w KratosClient \<Rightarrow> string \<Rightarrow> 'w \<Rightarrow> (auth_error + KratosUser) \<times> 'w" where
  "GetUser k userID w =
     (case admin_GetIdentity k userID w of
        (ExecErr err st, w1) \<Rightarrow> (Inl (FailedToGetUser err), w1)
      | (ExecOk status identity, w1) \<Rightarrow>
          if status \<noteq> StatusOK then (Inl (UserNotFoundStatus status), w1)
          else
            (let user0 = zero_user
                   \<lparr>ID := GetId identity,
                    CreatedAt := GetCreatedAt identity,
                    UpdatedAt := GetUpdatedAt identity\<rparr>;
                 traits = GetTraits identity;
                 user1 =
                   (if \<not> is_nil traits then
                      user0
                        \<lparr>Traits := traits,
                         Email := getStringFromTraits traits ''email'',
                         Username := getStringFromTraits traits ''username'',
                         FirstName := getStringFromTraits traits ''first_name'',
                         LastName := getStringFromTraits traits ''last_name'',
                         Phone := getStringFromTraits traits ''phone'',
                         SubscriptionPlan := getStringFromTraits traits ''subscription_plan'',
                         Avatar := getStringFromTraits traits ''avatar''\<rparr>
                    else user0);
                 (verified, w2) = isEmailVerified k (GetId identity) w1
             in (Inr (user1\<lparr>EmailVerified := verified\<rparr>), w2)))"

definition UpdateUser ::
    "'w KratosClient \<Rightarrow> string \<Rightarrow> (string \<Rightarrow> go_value option) \<Rightarrow> 'w
       \<Rightarrow> (auth_error + KratosUser) \<times> 'w" where
  "UpdateUser k userID traits w =
     (case admin_UpdateIdentity k userID traits w of
        (ExecErr err st, w1) \<Rightarrow> (Inl (FailedToUpdateUser err), w1)
      | (ExecOk status identity, w1) \<Rightarrow>
          if status \<noteq> StatusOK then (Inl (FailedToUpdateUserStatus status), w1)
          else GetUser k (GetId identity) w1)"

subsection \<open>The inbound request and the middleware\<close>

text \<open>
  Of \<^verbatim>\<open>http.Request\<close> the package reads the header map (canonical key to the list
  of its values), the cookies that the standard library parses from the Cookie header,
  and the values of the request's context. A context value is looked at only through
  the type assertion to a user pointer.
\<close>

datatype ctx_value = UserValue KratosUser | OtherValue

record Request =
  Header :: "string \<Rightarrow> string list"
  Cookies :: "(string \<times> string) list"
  Context :: "string \<Rightarrow> ctx_value option"

text \<open>\<^verbatim>\<open>Header.Get\<close>: the first value of the key, or the empty string.\<close>

definition Header_Get :: "Request \<Rightarrow> string \<Rightarrow> string" where
  "Header_Get r key = (case Header r key of [] \<Rightarrow> '''' | v # _ \<Rightarrow> v)"

text \<open>\<^verbatim>\<open>Request.Cookie\<close>: the first cookie of that name, or the no-cookie error.\<close>

definition Cookie :: "Request \<Rightarrow> string \<Rightarrow> string option" where
  "Cookie r name = map_of (Cookies r) name"

definition HasPrefix :: "string \<Rightarrow> string \<Rightarrow> bool" where
  "HasPrefix s p = (length s \<ge> length p \<and> take (length p) s = p)"

definition TrimPrefix :: "string \<Rightarrow> string \<Rightarrow> string" where
  "TrimPrefix s p = (if HasPrefix s p then drop (length p) s else s)"

definition extractSessionToken :: "Request \<Rightarrow> string" where
  "extractSessionToken r =
     (let auth = Header_Get r ''Authorization'' in
      if auth \<noteq> '''' \<and> HasPrefix auth ''Bearer '' then TrimPrefix auth ''Bearer ''
      else
        (let token = Header_Get r ''X-Session-Token'' in
         if token \<noteq> '''' then token
         else (case Cookie r ''ory_kratos_session'' of
                 Some v \<Rightarrow> v
               | None \<Rightarrow> '''')))"

text \<open>
  What the handler writes with \<^verbatim>\<open>http.Error\<close>: the status, and as the body the
  message followed by a newline (the standard library prints the message with
  \<^verbatim>\<open>fmt.Fprintln\<close>). The headers it sets are left out.
\<close>

record Response =
  StatusCode :: int
  Body :: string

definition http_Error :: "string \<Rightarrow> int \<Rightarrow> Response" where
  "http_Error error code = \<lparr>StatusCode = code, Body = error @ [CHR 0x0A]\<rparr>"

text \<open>
  What the handler does with a request: either it calls \<^verbatim>\<open>http.Error\<close> and
  returns, or it calls the next handler with a request and writes nothing itself.
\<close>

datatype handled = Responded Response | NextServeHTTP Request

definition SessionMiddleware :: "'w KratosClient \<Rightarrow> Request \<Rightarrow> 'w \<Rightarrow> handled \<times> 'w" where
  "SessionMiddleware k r w =
     (let sessionToken = extractSessionToken r in
      if sessionToken = '''' then
        (Responded (http_Error ''Session token required'' StatusUnauthorized), w)
      else
        (case ValidateSession k sessionToken w of
           (Inl err, w1) \<Rightarrow> (Responded (http_Error ''Invalid session'' StatusUnauthorized), w1)
         | (Inr user, w1) \<Rightarrow>
             (NextServeHTTP (r\<lparr>Context := (Context r)(''user'' \<mapsto> UserValue user)\<rparr>), w1)))"

definition GetUserFromContext :: "(string \<Rightarrow> ctx_value option) \<Rightarrow> KratosUser option" where
  "GetUserFromContext ctx =
     (case ctx ''user'' of Some (UserValue user) \<Rightarrow> Some user | _ \<Rightarrow> None)"

definition RequireUser :: "(string \<Rightarrow> ctx_value option) \<Rightarrow> auth_error + KratosUser" where
  "RequireUser ctx =
     (case GetUserFromContext ctx of None \<Rightarrow> Inl UserNotInContext | Some user \<Rightarrow> Inr user)"

subsection \<open>Two concrete clients\<close>

text \<open>
  The examples below run the package against two providers. The first answers every
  call with a fixed reply and has no state. The second keeps sessions by token and
  identities by id: it answers an unknown token or id with the error the library builds
  from a 401 or 404 response, and an update replaces the stored traits wholesale.
\<close>

definition canned_client ::
    "Session execute_result \<Rightarrow> Identity execute_result \<Rightarrow> Identity execute_result
       \<Rightarrow> unit KratosClient" where
  "canned_client sess ident upd =
     \<lparr>public_ToSession = (\<lambda>token w. (sess, w)),
      admin_GetIdentity = (\<lambda>userID w. (ident, w)),
      admin_UpdateIdentity = (\<lambda>userID traits w. (upd, w))\<rparr>"

record provider =
  sessions :: "string \<Rightarrow> Session option"
  identities :: "string \<Rightarrow> Identity option"

definition store_ToSession :: "string \<Rightarrow> provider \<Rightarrow> Session execute_result \<times> provider" where
  "store_ToSession token w =
     (case sessions w token of
        None \<Rightarrow> (ExecErr ''401 Unauthorized'' (Some 401), w)
      | Some s \<Rightarrow> (ExecOk 200 (Some s), w))"

definition store_GetIdentity :: "string \<Rightarrow> provider \<Rightarrow> Identity execute_result \<times> provider" where
  "store_GetIdentity userID w =
     (case identities w userID of
        None \<Rightarrow> (ExecErr ''404 Not Found'' (Some 404), w)
      | Some i \<Rightarrow> (ExecOk 200 (Some i), w))"

definition store_UpdateIdentity ::
    "string \<Rightarrow> (string \<Rightarrow> go_value option) \<Rightarrow> provider
       \<Rightarrow> Identity execute_result \<times> provider" where
  "store_UpdateIdentity userID traits w =
     (case identities w userID of
        None \<Rightarrow> (ExecErr ''404 Not Found'' (Some 404), w)
      | Some i \<Rightarrow>
          (ExecOk 200 (Some (i\<lparr>identity_Traits := GoMap traits\<rparr>)),
           w\<lparr>identities := (identities w)(userID \<mapsto> i\<lparr>identity_Traits := GoMap traits\<rparr>)\<rparr>))"

definition store_client :: "provider KratosClient" where
  "store_client =
     \<lparr>public_ToSession = store_ToSession,
      admin_GetIdentity = store_GetIdentity,
      admin_UpdateIdentity = store_UpdateIdentity\<rparr>"

text \<open>The identity and the session of the examples.\<close>

definition identity_u1 :: "(string \<Rightarrow> go_value option) \<Rightarrow> Identity" where
  "identity_u1 traits =
     \<lparr>identity_Id = ''u1'', identity_Traits = GoMap traits,
      identity_VerifiableAddresses = [], identity_RecoveryAddresses = [],
      identity_CreatedAt = None, identity_UpdatedAt = None\<rparr>"

definition provider_u1 :: provider where
  "provider_u1 =
     \<lparr>sessions =
        [''abc'' \<mapsto> \<lparr>session_Active = Some True,
                          session_Identity =
                            Some (identity_u1 [''email'' \<mapsto> GoString ''a@b.com''])\<rparr>],
      identities = [''u1'' \<mapsto> identity_u1 [''email'' \<mapsto> GoString ''a@b.com'']]\<rparr>"

definition user_u1 :: KratosUser where
  "user_u1 =
     zero_user\<lparr>ID := ''u1'', Email := ''a@b.com'', Active := True,
               Traits := GoMap [''email'' \<mapsto> GoString ''a@b.com'']\<rparr>"

definition traits_new :: "string \<Rightarrow> go_value option" where
  "traits_new = [''email'' \<mapsto> GoString ''new@b.com'', ''phone'' \<mapsto> GoNumber 5]"

definition provider_u1_updated :: provider where
  "provider_u1_updated =
     provider_u1\<lparr>identities := (identities provider_u1)(''u1'' \<mapsto> identity_u1 traits_new)\<rparr>"

definition user_u1_updated :: KratosUser where
  "user_u1_updated =
     zero_user\<lparr>ID := ''u1'', Email := ''new@b.com'', Traits := GoMap traits_new\<rparr>"

text \<open>A session that is active and carries no identity, and one that is not active.\<close>

definition session_anonymous :: Session where
  "session_anonymous = \<lparr>session_Active = Some True, session_Identity = None\<rparr>"

definition session_inactive :: Session where
  "session_inactive =
     \<lparr>session_Active = Some False,
      session_Identity = Some (identity_u1 [''email'' \<mapsto> GoString ''a@b.com''])\<rparr>"

definition not_found :: "'a execute_result" where
  "not_found = ExecErr ''404 Not Found'' (Some 404)"

text \<open>An identity whose only address is a recovery address, and one with an unverified address.\<close>

definition identity_recovery :: Identity where
  "identity_recovery =
     \<lparr>identity_Id = ''u2'', identity_Traits = GoNil,
      identity_VerifiableAddresses = [\<lparr>Via = ''email'', Verified = False\<rparr>],
      identity_RecoveryAddresses = [\<lparr>RecoveryVia = ''email''\<rparr>],
      identity_CreatedAt = None, identity_UpdatedAt = None\<rparr>"

definition identity_unverified :: Identity where
  "identity_unverified =
     \<lparr>identity_Id = ''u3'', identity_Traits = GoNil,
      identity_VerifiableAddresses =
        [\<lparr>Via = ''sms'', Verified = True\<rparr>, \<lparr>Via = ''email'', Verified = False\<rparr>],
      identity_RecoveryAddresses = [\<lparr>RecoveryVia = ''sms''\<rparr>],
      identity_CreatedAt = None, identity_UpdatedAt = None\<rparr>"

text \<open>
  A provider that answers an update with status 200 and the identity as updated, and
  keeps answering every lookup with the identity as it was.
\<close>

definition stale_client :: "unit KratosClient" where
  "stale_client =
     canned_client not_found
       (ExecOk 200 (Some (identity_u1 [''email'' \<mapsto> GoString ''a@b.com''])))
       (ExecOk 200 (Some (identity_u1 traits_new)))"

text \<open>
  A request with the given values of the Authorization and X-Session-Token headers,
  the given cookies and an empty context.
\<close>

definition request_of :: "string list \<Rightarrow> string list \<Rightarrow> (string \<times> string) list \<Rightarrow> Request" where
  "request_of auth token cookies =
     \<lparr>Header = (\<lambda>key. [])(''Authorization'' := auth, ''X-Session-Token'' := token),
      Cookies = cookies, Context = Map.empty\<rparr>"

section \<open>Evaluation of the examples\<close>

lemmas accessor_defs =
  GetVia_def GetVerified_def GetRecoveryVia_def GetId_def GetTraits_def GetCreatedAt_def
  GetUpdatedAt_def GetVerifiableAddresses_def GetRecoveryAddresses_def GetActive_def
  Identity_of_def StatusOK_def StatusUnauthorized_def zero_time_def

lemmas client_defs =
  canned_client_def store_client_def store_ToSession_def store_GetIdentity_def
  store_UpdateIdentity_def provider_u1_def identity_u1_def not_found_def

lemmas request_defs =
  request_of_def Header_Get_def Cookie_def HasPrefix_def TrimPrefix_def extractSessionToken_def

lemma validate_abc:
  "ValidateSession store_client ''abc'' provider_u1 = (Inr user_u1, provider_u1)"
  by (simp add: ValidateSession_def isEmailVerified_def Let_def client_defs accessor_defs
        getStringFromTraits_def user_u1_def zero_user_def)

lemma validate_unknown:
  "ValidateSession store_client ''zzz'' provider_u1 =
     (Inl (SessionValidationFailed ''401 Unauthorized''), provider_u1)"
  by (simp add: ValidateSession_def client_defs)

lemma validate_anonymous:
  "ValidateSession (canned_client (ExecOk 200 (Some session_anonymous)) not_found not_found)
     ''abc'' () = (Inr (zero_user\<lparr>Active := True\<rparr>), ())"
  by (simp add: ValidateSession_def isEmailVerified_def Let_def client_defs accessor_defs
        session_anonymous_def zero_user_def)

lemma update_u1:
  "UpdateUser store_client ''u1'' traits_new provider_u1 = (Inr user_u1_updated, provider_u1_updated)"
  by (simp add: UpdateUser_def GetUser_def isEmailVerified_def Let_def client_defs accessor_defs
        getStringFromTraits_def traits_new_def zero_user_def user_u1_updated_def
        provider_u1_updated_def)

lemma get_u1_updated:
  "GetUser store_client ''u1'' provider_u1_updated = (Inr user_u1_updated, provider_u1_updated)"
  by (simp add: GetUser_def isEmailVerified_def Let_def client_defs accessor_defs
        getStringFromTraits_def traits_new_def zero_user_def user_u1_updated_def
        provider_u1_updated_def)

section \<open>The trait projector\<close>

lemma getStringFromTraits_GoMap:
  "getStringFromTraits (GoMap m) key = (case m key of Some (GoString s) \<Rightarrow> s | _ \<Rightarrow> '''')"
  by (simp add: getStringFromTraits_def split: option.splits go_value.splits)

text \<open>
  Claim C6. \<open>getStringFromTraits\<close> is a total function with no failing branch (both
  type assertions of the source are of the checked form). It returns the empty string
  when the bag is nil, when the bag is not a string-keyed map, when the key is absent and
  when the value at the key is not a string; otherwise it returns the string at the key.
\<close>

theorem getStringFromTraits_total:
  "((traits = GoNil \<or> (\<forall>m. traits \<noteq> GoMap m)
      \<or> (\<exists>m. traits = GoMap m
            \<and> (m key = None \<or> (\<exists>v. m key = Some v \<and> (\<forall>s. v \<noteq> GoString s)))))
     \<longrightarrow> getStringFromTraits traits key = '''')
   \<and> (\<forall>m s. traits = GoMap m \<and> m key = Some (GoString s)
     \<longrightarrow> getStringFromTraits traits key = s)"
  by (cases traits) (auto simp: getStringFromTraits_def split: go_value.splits option.splits)

theorem getStringFromTraits_total_witness:
  "getStringFromTraits GoNil ''email'' = ''''
   \<and> getStringFromTraits (GoSlice [GoString ''a@b.com'']) ''email'' = ''''
   \<and> getStringFromTraits (GoMap traits_new) ''avatar'' = ''''
   \<and> getStringFromTraits (GoMap traits_new) ''phone'' = ''''
   \<and> getStringFromTraits (GoMap traits_new) ''email'' = ''new@b.com''"
proof -
  have nil: "getStringFromTraits GoNil ''email'' = ''''"
    using getStringFromTraits_total [of GoNil "''email''"] by simp
  have slice: "getStringFromTraits (GoSlice [GoString ''a@b.com'']) ''email'' = ''''"
    using getStringFromTraits_total [of "GoSlice [GoString ''a@b.com'']" "''email''"] by simp
  have absent: "getStringFromTraits (GoMap traits_new) ''avatar'' = ''''"
    using getStringFromTraits_total [of "GoMap traits_new" "''avatar''"]
    by (simp add: traits_new_def)
  have number: "getStringFromTraits (GoMap traits_new) ''phone'' = ''''"
    using getStringFromTraits_total [of "GoMap traits_new" "''phone''"]
    by (simp add: traits_new_def)
  have str: "getStringFromTraits (GoMap traits_new) ''email'' = ''new@b.com''"
    using getStringFromTraits_total [of "GoMap traits_new" "''email''"]
    by (simp add: traits_new_def)
  from nil slice absent number str show ?thesis by simp
qed

section \<open>The verification resolver\<close>

lemma verifiable_loop_iff:
  "verifiable_loop addrs \<longleftrightarrow> (\<exists>a \<in> set addrs. GetVia a = ''email'' \<and> GetVerified a)"
  by (induction addrs) auto

lemma recovery_loop_iff:
  "recovery_loop addrs \<longleftrightarrow> (\<exists>a \<in> set addrs. GetRecoveryVia a = ''email'')"
  by (induction addrs) auto

text \<open>
  Claim C3. When the identity lookup inside \<open>isEmailVerified\<close> succeeds (no error,
  status 200), the result is true if and only if some verifiable address has channel
  email and is verified (tier 1), or no verifiable address qualifies and some recovery
  address has channel email (tier 2).
\<close>

theorem isEmailVerified_two_tiers:
  assumes "admin_GetIdentity k userID w = (ExecOk StatusOK identity, w')"
  shows "fst (isEmailVerified k userID w) \<longleftrightarrow>
           (\<exists>a \<in> set (GetVerifiableAddresses identity). GetVia a = ''email'' \<and> GetVerified a)
         \<or> (\<not> (\<exists>a \<in> set (GetVerifiableAddresses identity).
                    GetVia a = ''email'' \<and> GetVerified a)
            \<and> (\<exists>a \<in> set (GetRecoveryAddresses identity). GetRecoveryVia a = ''email''))"
  using assms
  by (auto simp: isEmailVerified_def verifiable_loop_iff recovery_loop_iff)

theorem isEmailVerified_two_tiers_witness:
  "fst (isEmailVerified (canned_client not_found (ExecOk 200 (Some identity_recovery)) not_found)
          ''u2'' ())
   \<and> \<not> fst (isEmailVerified
               (canned_client not_found (ExecOk 200 (Some identity_unverified)) not_found)
               ''u3'' ())"
proof -
  have r: "admin_GetIdentity
             (canned_client not_found (ExecOk 200 (Some identity_recovery)) not_found) ''u2'' ()
           = (ExecOk StatusOK (Some identity_recovery), ())"
    by (simp add: canned_client_def StatusOK_def)
  have u: "admin_GetIdentity
             (canned_client not_found (ExecOk 200 (Some identity_unverified)) not_found) ''u3'' ()
           = (ExecOk StatusOK (Some identity_unverified), ())"
    by (simp add: canned_client_def StatusOK_def)
  show ?thesis
    using isEmailVerified_two_tiers [OF r] isEmailVerified_two_tiers [OF u]
    by (simp add: identity_recovery_def identity_unverified_def accessor_defs)
qed

text \<open>
  Claim C4. \<open>isEmailVerified\<close> returns a boolean and has no error result. When the
  identity lookup returns an error, or returns without error a status other than 200,
  the result is false.
\<close>

theorem isEmailVerified_fails_closed:
  "(\<exists>err st. fst (admin_GetIdentity k userID w) = ExecErr err st)
    \<or> (\<exists>status p. fst (admin_GetIdentity k userID w) = ExecOk status p \<and> status \<noteq> 200)
   \<Longrightarrow> fst (isEmailVerified k userID w) = False"
  by (auto simp: isEmailVerified_def StatusOK_def split: prod.splits execute_result.splits)

theorem isEmailVerified_fails_closed_witness:
  "fst (isEmailVerified store_client ''nobody'' provider_u1) = False
   \<and> fst (isEmailVerified
            (canned_client not_found (ExecOk 204 (Some identity_recovery)) not_found)
            ''u2'' ()) = False"
proof -
  have e: "fst (admin_GetIdentity store_client ''nobody'' provider_u1)
           = ExecErr ''404 Not Found'' (Some 404)"
    by (simp add: client_defs)
  have s: "fst (admin_GetIdentity
             (canned_client not_found (ExecOk 204 (Some identity_recovery)) not_found) ''u2'' ())
           = ExecOk 204 (Some identity_recovery)"
    by (simp add: canned_client_def)
  have "fst (isEmailVerified store_client ''nobody'' provider_u1) = False"
    using isEmailVerified_fails_closed [of store_client "''nobody''" provider_u1] e by simp
  moreover have "fst (isEmailVerified
            (canned_client not_found (ExecOk 204 (Some identity_recovery)) not_found)
            ''u2'' ()) = False"
    using isEmailVerified_fails_closed
            [of "canned_client not_found (ExecOk 204 (Some identity_recovery)) not_found"
                "''u2''" "()"] s
    by simp
  ultimately show ?thesis by simp
qed

section \<open>Session validation\<close>

text \<open>
  Claim C1, as the code has it. \<open>ValidateSession\<close> does not inspect the id. For every
  accepted token the session call returned status 200 and an active session, and the id
  of the returned user is the id of the identity that the session payload carries; it is
  non-empty exactly when the payload carries an identity with a non-empty id.
\<close>

theorem ValidateSession_ID_of_payload:
  assumes "ValidateSession k tok w = (Inr u, w')"
  shows "\<exists>s w1. public_ToSession k tok w = (ExecOk 200 s, w1) \<and> GetActive s
           \<and> ID u = GetId (Identity_of s)
           \<and> (ID u \<noteq> '''' \<longleftrightarrow> (\<exists>i. Identity_of s = Some i \<and> identity_Id i \<noteq> ''''))"
  using assms
  by (auto simp: ValidateSession_def Let_def StatusOK_def GetId_def
           split: prod.splits execute_result.splits if_splits option.splits)

theorem ValidateSession_ID_of_payload_witness:
  "ValidateSession store_client ''abc'' provider_u1 = (Inr user_u1, provider_u1)
   \<and> ID user_u1 = ''u1''
   \<and> (\<exists>s w1. public_ToSession store_client ''abc'' provider_u1 = (ExecOk 200 s, w1)
          \<and> GetActive s \<and> ID user_u1 = GetId (Identity_of s)
          \<and> (ID user_u1 \<noteq> '''' \<longleftrightarrow> (\<exists>i. Identity_of s = Some i \<and> identity_Id i \<noteq> '''')))"
  using ValidateSession_ID_of_payload [OF validate_abc] validate_abc
  by (simp add: user_u1_def zero_user_def)

text \<open>
  The claim as stated fails: an active session whose payload carries no identity is
  accepted, and the user returned has the empty id.
\<close>

theorem ValidateSession_empty_ID:
  "fst (ValidateSession
          (canned_client (ExecOk 200 (Some session_anonymous)) not_found not_found) ''abc'' ())
     = Inr (zero_user\<lparr>Active := True\<rparr>)
   \<and> ID (zero_user\<lparr>Active := True\<rparr>) = ''''"
  by (simp add: validate_anonymous zero_user_def)

text \<open>
  Claim C2. \<open>ValidateSession\<close> returns an error (and then no user: the result is a
  sum) if and only if the token is empty, or the session call returns an error, or it
  returns a status other than 200, or the session is not active. On the empty token the
  result does not depend on the client and the provider's state is unchanged: no call
  is made. A session that is not active is rejected whatever the status.
\<close>

theorem ValidateSession_error_iff:
  "ValidateSession k '''' w = (Inl SessionTokenRequired, w)
   \<and> (isl (fst (ValidateSession k tok w)) \<longleftrightarrow>
        tok = ''''
        \<or> (\<exists>err st. fst (public_ToSession k tok w) = ExecErr err st)
        \<or> (\<exists>status s. fst (public_ToSession k tok w) = ExecOk status s
              \<and> (status \<noteq> 200 \<or> \<not> GetActive s)))
   \<and> (\<forall>status s. fst (public_ToSession k tok w) = ExecOk status s \<and> \<not> GetActive s
        \<longrightarrow> isl (fst (ValidateSession k tok w)))"
  by (auto simp: ValidateSession_def Let_def StatusOK_def
           split: prod.splits execute_result.splits)

theorem ValidateSession_error_iff_witness:
  "isl (fst (ValidateSession
               (canned_client (ExecOk 200 (Some session_inactive)) not_found not_found)
               ''abc'' ()))
   \<and> isl (fst (ValidateSession
               (canned_client (ExecOk 204 (Some session_inactive)) not_found not_found)
               ''abc'' ()))
   \<and> \<not> isl (fst (ValidateSession store_client ''abc'' provider_u1))
   \<and> isl (fst (ValidateSession store_client ''zzz'' provider_u1))
   \<and> ValidateSession store_client '''' provider_u1 = (Inl SessionTokenRequired, provider_u1)"
proof -
  have a: "isl (fst (ValidateSession
               (canned_client (ExecOk 200 (Some session_inactive)) not_found not_found)
               ''abc'' ()))"
    using ValidateSession_error_iff
            [of "canned_client (ExecOk 200 (Some session_inactive)) not_found not_found"
                "()" "''abc''"]
    by (simp add: canned_client_def session_inactive_def GetActive_def)
  have b: "isl (fst (ValidateSession
               (canned_client (ExecOk 204 (Some session_inactive)) not_found not_found)
               ''abc'' ()))"
    using ValidateSession_error_iff
            [of "canned_client (ExecOk 204 (Some session_inactive)) not_found not_found"
                "()" "''abc''"]
    by (simp add: canned_client_def session_inactive_def GetActive_def)
  have c: "\<not> isl (fst (ValidateSession store_client ''abc'' provider_u1))"
    using ValidateSession_error_iff [of store_client provider_u1 "''abc''"]
    by (simp add: client_defs GetActive_def)
  have d: "isl (fst (ValidateSession store_client ''zzz'' provider_u1))"
    using ValidateSession_error_iff [of store_client provider_u1 "''zzz''"]
    by (simp add: client_defs)
  have e: "ValidateSession store_client '''' provider_u1 = (Inl SessionTokenRequired, provider_u1)"
    using ValidateSession_error_iff [of store_client provider_u1] by simp
  from a b c d e show ?thesis by simp
qed

section \<open>User management\<close>

text \<open>
  Claim C8, as the code has it. \<open>GetUser\<close> fails with the user-not-found error
  exactly when the lookup returns without error a status other than 200 (any such status,
  which the message prints), and with the failed-to-get-user error exactly when the
  lookup returns an error; it fails in no other way, and the two errors differ.
\<close>

theorem GetUser_errors:
  "(\<forall>n. fst (GetUser k userID w) = Inl (UserNotFoundStatus n) \<longleftrightarrow>
         (\<exists>p. fst (admin_GetIdentity k userID w) = ExecOk n p) \<and> n \<noteq> 200)
   \<and> (\<forall>e. fst (GetUser k userID w) = Inl (FailedToGetUser e) \<longleftrightarrow>
         (\<exists>st. fst (admin_GetIdentity k userID w) = ExecErr e st))
   \<and> (isl (fst (GetUser k userID w)) \<longleftrightarrow>
         (\<exists>n. fst (GetUser k userID w) = Inl (UserNotFoundStatus n))
         \<or> (\<exists>e. fst (GetUser k userID w) = Inl (FailedToGetUser e)))
   \<and> (\<forall>n e. UserNotFoundStatus n \<noteq> FailedToGetUser e)"
  by (auto simp: GetUser_def Let_def StatusOK_def split: prod.splits execute_result.splits)

theorem GetUser_errors_witness:
  "fst (GetUser store_client ''nobody'' provider_u1) = Inl (FailedToGetUser ''404 Not Found'')
   \<and> fst (GetUser (canned_client not_found (ExecOk 204 None) not_found) ''u1'' ())
       = Inl (UserNotFoundStatus 204)"
  using GetUser_errors [of store_client "''nobody''" provider_u1]
        GetUser_errors [of "canned_client not_found (ExecOk 204 None) not_found" "''u1''" "()"]
  by (simp add: client_defs)

text \<open>
  The claim as stated fails in both directions. The provider reports status 404 for an
  unknown id, the library turns it into an error, and \<open>GetUser\<close> fails with
  failed-to-get-user rather than user-not-found. A reply of status 204, which is not a
  not-found status, makes it fail with user-not-found.
\<close>

theorem GetUser_not_found_mismatch:
  "fst (admin_GetIdentity store_client ''nobody'' provider_u1)
     = ExecErr ''404 Not Found'' (Some 404)
   \<and> fst (GetUser store_client ''nobody'' provider_u1) = Inl (FailedToGetUser ''404 Not Found'')
   \<and> fst (GetUser (canned_client not_found (ExecOk 204 None) not_found) ''u1'' ())
       = Inl (UserNotFoundStatus 204)"
  by (simp add: GetUser_def client_defs StatusOK_def)

lemma GetUser_fields:
  assumes "admin_GetIdentity k userID w = (ExecOk StatusOK identity, w1)"
      and "GetTraits identity = GoMap traits"
  shows "\<exists>u w2. GetUser k userID w = (Inr u, w2)
           \<and> ID u = GetId identity
           \<and> Email u = getStringFromTraits (GoMap traits) ''email''
           \<and> Username u = getStringFromTraits (GoMap traits) ''username''
           \<and> FirstName u = getStringFromTraits (GoMap traits) ''first_name''
           \<and> LastName u = getStringFromTraits (GoMap traits) ''last_name''
           \<and> Phone u = getStringFromTraits (GoMap traits) ''phone''
           \<and> SubscriptionPlan u = getStringFromTraits (GoMap traits) ''subscription_plan''
           \<and> Avatar u = getStringFromTraits (GoMap traits) ''avatar''"
  using assms by (simp add: GetUser_def Let_def split: prod.splits)

text \<open>
  Claim C7, as the code has it. When the update call succeeds with status 200, the
  result of \<open>UpdateUser\<close> is the result of \<open>GetUser\<close> on the id that the update
  response reports, in the provider's state after the update, whatever the provider
  then returns; nothing else of the update response is used. When a lookup succeeds and
  the provider returns the traits that were sent, each recognised field of the user
  that \<open>GetUser\<close> reads is the entry of the input traits at its key where that entry
  is a string, and the empty string where the entry is absent or is not a string; so
  are the fields of the user that \<open>UpdateUser\<close> returns when the lookup it makes is
  such a lookup.
\<close>

theorem UpdateUser_read_after_write:
  "(\<forall>p w1. admin_UpdateIdentity k userID traits w = (ExecOk 200 p, w1) \<longrightarrow>
       UpdateUser k userID traits w = GetUser k (GetId p) w1)
   \<and> (\<forall>uid ws identity w2.
         admin_GetIdentity k uid ws = (ExecOk 200 identity, w2)
         \<and> GetTraits identity = GoMap traits \<longrightarrow>
       (\<exists>u w3. GetUser k uid ws = (Inr u, w3)
          \<and> ID u = GetId identity
          \<and> Email u = (case traits ''email'' of Some (GoString s) \<Rightarrow> s | _ \<Rightarrow> '''')
          \<and> Username u = (case traits ''username'' of Some (GoString s) \<Rightarrow> s | _ \<Rightarrow> '''')
          \<and> FirstName u = (case traits ''first_name'' of Some (GoString s) \<Rightarrow> s | _ \<Rightarrow> '''')
          \<and> LastName u = (case traits ''last_name'' of Some (GoString s) \<Rightarrow> s | _ \<Rightarrow> '''')
          \<and> Phone u = (case traits ''phone'' of Some (GoString s) \<Rightarrow> s | _ \<Rightarrow> '''')
          \<and> SubscriptionPlan u =
              (case traits ''subscription_plan'' of Some (GoString s) \<Rightarrow> s | _ \<Rightarrow> '''')
          \<and> Avatar u = (case traits ''avatar'' of Some (GoString s) \<Rightarrow> s | _ \<Rightarrow> '''')))
   \<and> (\<forall>p w1 identity w2.
         admin_UpdateIdentity k userID traits w = (ExecOk 200 p, w1)
         \<and> admin_GetIdentity k (GetId p) w1 = (ExecOk 200 identity, w2)
         \<and> GetTraits identity = GoMap traits \<longrightarrow>
       (\<exists>u w3. UpdateUser k userID traits w = (Inr u, w3)
          \<and> ID u = GetId identity
          \<and> Email u = (case traits ''email'' of Some (GoString s) \<Rightarrow> s | _ \<Rightarrow> '''')
          \<and> Username u = (case traits ''username'' of Some (GoString s) \<Rightarrow> s | _ \<Rightarrow> '''')
          \<and> FirstName u = (case traits ''first_name'' of Some (GoString s) \<Rightarrow> s | _ \<Rightarrow> '''')
          \<and> LastName u = (case traits ''last_name'' of Some (GoString s) \<Rightarrow> s | _ \<Rightarrow> '''')
          \<and> Phone u = (case traits ''phone'' of Some (GoString s) \<Rightarrow> s | _ \<Rightarrow> '''')
          \<and> SubscriptionPlan u =
              (case traits ''subscription_plan'' of Some (GoString s) \<Rightarrow> s | _ \<Rightarrow> '''')
          \<and> Avatar u = (case traits ''avatar'' of Some (GoString s) \<Rightarrow> s | _ \<Rightarrow> '''')))"
proof -
  have re: "UpdateUser k userID traits w = GetUser k (GetId p) w1"
    if "admin_UpdateIdentity k userID traits w = (ExecOk 200 p, w1)" for p w1
    using that by (simp add: UpdateUser_def StatusOK_def)
  have fields:
    "\<exists>u w3. GetUser k uid ws = (Inr u, w3)
          \<and> ID u = GetId identity
          \<and> Email u = (case traits ''email'' of Some (GoString s) \<Rightarrow> s | _ \<Rightarrow> '''')
          \<and> Username u = (case traits ''username'' of Some (GoString s) \<Rightarrow> s | _ \<Rightarrow> '''')
          \<and> FirstName u = (case traits ''first_name'' of Some (GoString s) \<Rightarrow> s | _ \<Rightarrow> '''')
          \<and> LastName u = (case traits ''last_name'' of Some (GoString s) \<Rightarrow> s | _ \<Rightarrow> '''')
          \<and> Phone u = (case traits ''phone'' of Some (GoString s) \<Rightarrow> s | _ \<Rightarrow> '''')
          \<and> SubscriptionPlan u =
              (case traits ''subscription_plan'' of Some (GoString s) \<Rightarrow> s | _ \<Rightarrow> '''')
          \<and> Avatar u = (case traits ''avatar'' of Some (GoString s) \<Rightarrow> s | _ \<Rightarrow> '''')"
    if "admin_GetIdentity k uid ws = (ExecOk 200 identity, w2)"
       "GetTraits identity = GoMap traits" for uid ws identity w2
    using GetUser_fields [of k uid ws identity w2 traits] that
    unfolding getStringFromTraits_GoMap StatusOK_def by blast
  show ?thesis
  proof (intro conjI allI impI)
    fix p w1
    assume "admin_UpdateIdentity k userID traits w = (ExecOk 200 p, w1)"
    then show "UpdateUser k userID traits w = GetUser k (GetId p) w1" by (rule re)
  next
    fix uid ws identity w2
    assume "admin_GetIdentity k uid ws = (ExecOk 200 identity, w2)
            \<and> GetTraits identity = GoMap traits"
    then show "\<exists>u w3. GetUser k uid ws = (Inr u, w3)
          \<and> ID u = GetId identity
          \<and> Email u = (case traits ''email'' of Some (GoString s) \<Rightarrow> s | _ \<Rightarrow> '''')
          \<and> Username u = (case traits ''username'' of Some (GoString s) \<Rightarrow> s | _ \<Rightarrow> '''')
          \<and> FirstName u = (case traits ''first_name'' of Some (GoString s) \<Rightarrow> s | _ \<Rightarrow> '''')
          \<and> LastName u = (case traits ''last_name'' of Some (GoString s) \<Rightarrow> s | _ \<Rightarrow> '''')
          \<and> Phone u = (case traits ''phone'' of Some (GoString s) \<Rightarrow> s | _ \<Rightarrow> '''')
          \<and> SubscriptionPlan u =
              (case traits ''subscription_plan'' of Some (GoString s) \<Rightarrow> s | _ \<Rightarrow> '''')
          \<and> Avatar u = (case traits ''avatar'' of Some (GoString s) \<Rightarrow> s | _ \<Rightarrow> '''')"
      using fields by blast
  next
    fix p w1 identity w2
    assume a: "admin_UpdateIdentity k userID traits w = (ExecOk 200 p, w1)
            \<and> admin_GetIdentity k (GetId p) w1 = (ExecOk 200 identity, w2)
            \<and> GetTraits identity = GoMap traits"
    then have "UpdateUser k userID traits w = GetUser k (GetId p) w1" using re by blast
    then show "\<exists>u w3. UpdateUser k userID traits w = (Inr u, w3)
          \<and> ID u = GetId identity
          \<and> Email u = (case traits ''email'' of Some (GoString s) \<Rightarrow> s | _ \<Rightarrow> '''')
          \<and> Username u = (case traits ''username'' of Some (GoString s) \<Rightarrow> s | _ \<Rightarrow> '''')
          \<and> FirstName u = (case traits ''first_name'' of Some (GoString s) \<Rightarrow> s | _ \<Rightarrow> '''')
          \<and> LastName u = (case traits ''last_name'' of Some (GoString s) \<Rightarrow> s | _ \<Rightarrow> '''')
          \<and> Phone u = (case traits ''phone'' of Some (GoString s) \<Rightarrow> s | _ \<Rightarrow> '''')
          \<and> SubscriptionPlan u =
              (case traits ''subscription_plan'' of Some (GoString s) \<Rightarrow> s | _ \<Rightarrow> '''')
          \<and> Avatar u = (case traits ''avatar'' of Some (GoString s) \<Rightarrow> s | _ \<Rightarrow> '''')"
      using fields [of "GetId p" w1 identity w2] a by simp
  qed
qed

lemma traits_new_entries:
  "traits_new ''email'' = Some (GoString ''new@b.com'')"
  "traits_new ''phone'' = Some (GoNumber 5)"
  "traits_new ''username'' = None"
  "traits_new ''first_name'' = None"
  "traits_new ''last_name'' = None"
  "traits_new ''subscription_plan'' = None"
  "traits_new ''avatar'' = None"
  by (simp_all add: traits_new_def)

lemma store_update_u1:
  "admin_UpdateIdentity store_client ''u1'' traits_new provider_u1
     = (ExecOk 200 (Some (identity_u1 traits_new)), provider_u1_updated)"
  by (simp add: client_defs provider_u1_updated_def)

lemma store_lookup_u1:
  "admin_GetIdentity store_client ''u1'' provider_u1_updated
     = (ExecOk 200 (Some (identity_u1 traits_new)), provider_u1_updated)"
  by (simp add: client_defs provider_u1_updated_def)

lemma stale_update_u1:
  "admin_UpdateIdentity stale_client ''u1'' traits_new ()
     = (ExecOk 200 (Some (identity_u1 traits_new)), ())"
  by (simp add: stale_client_def canned_client_def)

lemma stale_get_u1:
  "GetUser stale_client ''u1'' () = (Inr (user_u1\<lparr>Active := False\<rparr>), ())"
  by (simp add: GetUser_def isEmailVerified_def Let_def stale_client_def client_defs
        accessor_defs getStringFromTraits_def user_u1_def zero_user_def)

lemma identity_u1_accessors:
  "GetId (Some (identity_u1 t)) = ''u1''"
  "GetTraits (Some (identity_u1 t)) = GoMap t"
  by (simp_all add: GetId_def GetTraits_def identity_u1_def)

theorem UpdateUser_read_after_write_witness:
  "UpdateUser store_client ''u1'' traits_new provider_u1
     = GetUser store_client ''u1'' provider_u1_updated
   \<and> (\<exists>u w3. GetUser store_client ''u1'' provider_u1_updated = (Inr u, w3)
         \<and> ID u = ''u1'' \<and> Email u = ''new@b.com'' \<and> Username u = ''''
         \<and> FirstName u = '''' \<and> LastName u = '''' \<and> Phone u = ''''
         \<and> SubscriptionPlan u = '''' \<and> Avatar u = '''')
   \<and> (\<exists>u w3. UpdateUser store_client ''u1'' traits_new provider_u1 = (Inr u, w3)
         \<and> ID u = ''u1'' \<and> Email u = ''new@b.com'' \<and> Username u = ''''
         \<and> FirstName u = '''' \<and> LastName u = '''' \<and> Phone u = ''''
         \<and> SubscriptionPlan u = '''' \<and> Avatar u = '''')
   \<and> UpdateUser stale_client ''u1'' traits_new () = GetUser stale_client ''u1'' ()
   \<and> fst (UpdateUser stale_client ''u1'' traits_new ()) = Inr (user_u1\<lparr>Active := False\<rparr>)
   \<and> Email (user_u1\<lparr>Active := False\<rparr>) = ''a@b.com''"
proof -
  note t = UpdateUser_read_after_write [of store_client "''u1''" traits_new provider_u1]
  have a: "UpdateUser store_client ''u1'' traits_new provider_u1
             = GetUser store_client ''u1'' provider_u1_updated"
    using t store_update_u1 identity_u1_accessors(1) [of traits_new] by metis
  have b: "\<exists>u w3. GetUser store_client ''u1'' provider_u1_updated = (Inr u, w3)
         \<and> ID u = ''u1'' \<and> Email u = ''new@b.com'' \<and> Username u = ''''
         \<and> FirstName u = '''' \<and> LastName u = '''' \<and> Phone u = ''''
         \<and> SubscriptionPlan u = '''' \<and> Avatar u = ''''"
    using t [THEN conjunct2, THEN conjunct1, rule_format,
             of "''u1''" provider_u1_updated "Some (identity_u1 traits_new)" provider_u1_updated,
             unfolded identity_u1_accessors traits_new_entries option.case go_value.case]
          store_lookup_u1
    by blast
  have c: "\<exists>u w3. UpdateUser store_client ''u1'' traits_new provider_u1 = (Inr u, w3)
         \<and> ID u = ''u1'' \<and> Email u = ''new@b.com'' \<and> Username u = ''''
         \<and> FirstName u = '''' \<and> LastName u = '''' \<and> Phone u = ''''
         \<and> SubscriptionPlan u = '''' \<and> Avatar u = ''''"
    using t [THEN conjunct2, THEN conjunct2, rule_format,
             of "Some (identity_u1 traits_new)" provider_u1_updated
                "Some (identity_u1 traits_new)" provider_u1_updated,
             unfolded identity_u1_accessors traits_new_entries option.case go_value.case]
          store_update_u1 store_lookup_u1
    by blast
  have d: "UpdateUser stale_client ''u1'' traits_new () = GetUser stale_client ''u1'' ()"
    using UpdateUser_read_after_write [of stale_client "''u1''" traits_new "()"]
          stale_update_u1 identity_u1_accessors(1) [of traits_new]
    by metis
  have e: "fst (UpdateUser stale_client ''u1'' traits_new ()) = Inr (user_u1\<lparr>Active := False\<rparr>)"
    using d stale_get_u1 by simp
  have f: "Email (user_u1\<lparr>Active := False\<rparr>) = ''a@b.com''"
    by (simp add: user_u1_def zero_user_def)
  from a b c d e f show ?thesis by blast
qed

text \<open>
  The claim as stated fails: the provider stores the traits sent and returns them, the
  entry at the key phone is the number 5, and the user read back has the empty phone.
\<close>

theorem UpdateUser_round_trip_mismatch:
  "UpdateUser store_client ''u1'' traits_new provider_u1 = (Inr user_u1_updated, provider_u1_updated)
   \<and> GetUser store_client ''u1'' provider_u1_updated = (Inr user_u1_updated, provider_u1_updated)
   \<and> traits_new ''phone'' = Some (GoNumber 5)
   \<and> Phone user_u1_updated = ''''
   \<and> traits_new ''phone'' \<noteq> Some (GoString (Phone user_u1_updated))"
proof -
  have "traits_new ''phone'' = Some (GoNumber 5)"
    by (simp add: traits_new_def)
  moreover have "Phone user_u1_updated = ''''"
    by (simp add: user_u1_updated_def zero_user_def)
  ultimately show ?thesis
    using update_u1 get_u1_updated by simp
qed

section \<open>The credential extractor\<close>

lemma HasPrefix_iff: "HasPrefix s p \<longleftrightarrow> (\<exists>t. s = p @ t)"
  unfolding HasPrefix_def
proof
  assume "length p \<le> length s \<and> take (length p) s = p"
  then have "s = p @ drop (length p) s" by (metis append_take_drop_id)
  then show "\<exists>t. s = p @ t" ..
next
  assume "\<exists>t. s = p @ t"
  then show "length p \<le> length s \<and> take (length p) s = p" by auto
qed

lemma TrimPrefix_append: "TrimPrefix (p @ t) p = t"
  by (simp add: TrimPrefix_def HasPrefix_def)

lemma extract_bearer:
  "Header_Get (request_of [''Bearer X1''] [''Y1''] cookies) ''Authorization'' = ''Bearer '' @ ''X1''"
  by (simp add: request_of_def Header_Get_def)

lemma extract_headers:
  "Header_Get (request_of (a # as) ts cookies) ''Authorization'' = a"
  "Header_Get (request_of [] ts cookies) ''Authorization'' = ''''"
  "Header_Get (request_of as (t # ts) cookies) ''X-Session-Token'' = t"
  "Header_Get (request_of as [] cookies) ''X-Session-Token'' = ''''"
  "Cookie (request_of as ts cookies) name = map_of cookies name"
  by (simp_all add: request_of_def Header_Get_def Cookie_def)

text \<open>
  Claim C5. When the Authorization header is the prefix \<open>Bearer \<close> followed by X, the
  extractor returns X, whatever the X-Session-Token header and the cookies are. In
  general the result is the rest of the Authorization header after the prefix if it has
  the prefix, else the X-Session-Token header if it is not empty, else the value of the
  cookie \<open>ory_kratos_session\<close> if there is one, else the empty string.
\<close>

theorem extractSessionToken_precedence:
  "(\<forall>X. Header_Get r ''Authorization'' = ''Bearer '' @ X \<longrightarrow> extractSessionToken r = X)
   \<and> extractSessionToken r =
       (if HasPrefix (Header_Get r ''Authorization'') ''Bearer ''
        then TrimPrefix (Header_Get r ''Authorization'') ''Bearer ''
        else if Header_Get r ''X-Session-Token'' \<noteq> '''' then Header_Get r ''X-Session-Token''
        else (case Cookie r ''ory_kratos_session'' of Some v \<Rightarrow> v | None \<Rightarrow> ''''))"
proof (intro conjI allI impI)
  fix X assume a: "Header_Get r ''Authorization'' = ''Bearer '' @ X"
  have "HasPrefix (''Bearer '' @ X) ''Bearer ''" by (simp add: HasPrefix_def)
  moreover have "TrimPrefix (''Bearer '' @ X) ''Bearer '' = X" by (rule TrimPrefix_append)
  ultimately show "extractSessionToken r = X"
    using a by (simp add: extractSessionToken_def)
next
  have e: "\<not> HasPrefix '''' ''Bearer ''" by (simp add: HasPrefix_def)
  show "extractSessionToken r =
       (if HasPrefix (Header_Get r ''Authorization'') ''Bearer ''
        then TrimPrefix (Header_Get r ''Authorization'') ''Bearer ''
        else if Header_Get r ''X-Session-Token'' \<noteq> '''' then Header_Get r ''X-Session-Token''
        else (case Cookie r ''ory_kratos_session'' of Some v \<Rightarrow> v | None \<Rightarrow> ''''))"
    using e by (auto simp: extractSessionToken_def Let_def)
qed

theorem extractSessionToken_precedence_witness:
  "extractSessionToken
     (request_of [''Bearer X1''] [''Y1''] [(''ory_kratos_session'', ''Z1'')]) = ''X1''
   \<and> extractSessionToken (request_of [''Bearer X1''] [''Y1''] []) = ''X1''"
proof -
  have "extractSessionToken
          (request_of [''Bearer X1''] [''Y1''] [(''ory_kratos_session'', ''Z1'')]) = ''X1''"
    using extractSessionToken_precedence
            [of "request_of [''Bearer X1''] [''Y1''] [(''ory_kratos_session'', ''Z1'')]"]
          extract_bearer [of "[(''ory_kratos_session'', ''Z1'')]"]
    by blast
  moreover have "extractSessionToken (request_of [''Bearer X1''] [''Y1''] []) = ''X1''"
    using extractSessionToken_precedence [of "request_of [''Bearer X1''] [''Y1''] []"]
          extract_bearer [of "[]"]
    by blast
  ultimately show ?thesis by simp
qed

text \<open>
  Claim C10. When the Authorization header is not empty and does not have the prefix
  \<open>Bearer \<close>, the extractor goes on: it returns the X-Session-Token header if that is
  not empty, else the value of the cookie \<open>ory_kratos_session\<close> if there is one, else
  the empty string.
\<close>

theorem extractSessionToken_falls_through:
  assumes "Header_Get r ''Authorization'' \<noteq> ''''"
      and "\<not> (\<exists>t. Header_Get r ''Authorization'' = ''Bearer '' @ t)"
  shows "extractSessionToken r =
           (if Header_Get r ''X-Session-Token'' \<noteq> '''' then Header_Get r ''X-Session-Token''
            else (case Cookie r ''ory_kratos_session'' of Some v \<Rightarrow> v | None \<Rightarrow> ''''))"
  using assms by (simp add: extractSessionToken_def Let_def HasPrefix_iff)

theorem extractSessionToken_falls_through_witness:
  "extractSessionToken (request_of [''bearer abc''] [''tok''] [(''ory_kratos_session'', ''c1'')])
     = ''tok''
   \<and> extractSessionToken (request_of [''Basic xyz''] [] [(''ory_kratos_session'', ''c1'')])
     = ''c1''
   \<and> extractSessionToken (request_of [''Basic xyz''] [] []) = ''''"
proof -
  have n1: "\<not> (\<exists>t. ''bearer abc'' = ''Bearer '' @ t)" by simp
  have n2: "\<not> (\<exists>t. ''Basic xyz'' = ''Bearer '' @ t)" by simp
  have "extractSessionToken
          (request_of [''bearer abc''] [''tok''] [(''ory_kratos_session'', ''c1'')]) = ''tok''"
    using extractSessionToken_falls_through
            [of "request_of [''bearer abc''] [''tok''] [(''ory_kratos_session'', ''c1'')]"] n1
    by (simp add: extract_headers)
  moreover have
    "extractSessionToken (request_of [''Basic xyz''] [] [(''ory_kratos_session'', ''c1'')]) = ''c1''"
    using extractSessionToken_falls_through
            [of "request_of [''Basic xyz''] [] [(''ory_kratos_session'', ''c1'')]"] n2
    by (simp add: extract_headers)
  moreover have "extractSessionToken (request_of [''Basic xyz''] [] []) = ''''"
    using extractSessionToken_falls_through [of "request_of [''Basic xyz''] [] []"] n2
    by (simp add: extract_headers)
  ultimately show ?thesis by simp
qed

section \<open>The session middleware\<close>

lemma extract_examples:
  "extractSessionToken (request_of [] [] []) = ''''"
  "extractSessionToken (request_of [] [''zzz''] []) = ''zzz''"
  "extractSessionToken (request_of [] [''abc''] []) = ''abc''"
  by (simp_all add: request_defs)

text \<open>
  Claim C9, as the code has it. When the extractor returns the empty token, the
  middleware answers with status 401 and the body \<open>Session token required\<close> followed
  by a newline, makes no remote call and does not call the next handler. When a token
  is extracted and \<open>ValidateSession\<close> returns an error, it answers with status 401 and
  the body \<open>Invalid session\<close> followed by a newline and does not call the next
  handler. In both cases no request with a user in its context is produced. The next
  handler is called only when a token was extracted and validated, and then with the
  request whose context binds that user under the key \<open>user\<close>.
\<close>

theorem SessionMiddleware_outcomes:
  "(extractSessionToken r = '''' \<longrightarrow>
      SessionMiddleware k r w =
        (Responded \<lparr>StatusCode = 401, Body = ''Session token required'' @ [CHR 0x0A]\<rparr>, w))
   \<and> (\<forall>e w1. extractSessionToken r \<noteq> ''''
         \<and> ValidateSession k (extractSessionToken r) w = (Inl e, w1) \<longrightarrow>
      SessionMiddleware k r w =
        (Responded \<lparr>StatusCode = 401, Body = ''Invalid session'' @ [CHR 0x0A]\<rparr>, w1))
   \<and> (\<forall>u w1. extractSessionToken r \<noteq> ''''
         \<and> ValidateSession k (extractSessionToken r) w = (Inr u, w1) \<longrightarrow>
      SessionMiddleware k r w =
        (NextServeHTTP (r\<lparr>Context := (Context r)(''user'' \<mapsto> UserValue u)\<rparr>), w1))
   \<and> (\<forall>r'. fst (SessionMiddleware k r w) = NextServeHTTP r' \<longrightarrow>
         extractSessionToken r \<noteq> ''''
         \<and> (\<exists>u. fst (ValidateSession k (extractSessionToken r) w) = Inr u
                \<and> GetUserFromContext (Context r') = Some u))"
  by (auto simp: SessionMiddleware_def Let_def StatusUnauthorized_def GetUserFromContext_def
           http_Error_def split: prod.splits sum.splits)

theorem SessionMiddleware_outcomes_witness:
  "SessionMiddleware store_client (request_of [] [] []) provider_u1
     = (Responded \<lparr>StatusCode = 401, Body = ''Session token required'' @ [CHR 0x0A]\<rparr>,
        provider_u1)
   \<and> SessionMiddleware store_client (request_of [] [''zzz''] []) provider_u1
     = (Responded \<lparr>StatusCode = 401, Body = ''Invalid session'' @ [CHR 0x0A]\<rparr>, provider_u1)
   \<and> SessionMiddleware store_client (request_of [] [''abc''] []) provider_u1
     = (NextServeHTTP
          ((request_of [] [''abc''] [])
             \<lparr>Context := (Context (request_of [] [''abc''] []))(''user'' \<mapsto> UserValue user_u1)\<rparr>),
        provider_u1)
   \<and> GetUserFromContext
        ((Context (request_of [] [''abc''] []))(''user'' \<mapsto> UserValue user_u1)) = Some user_u1"
proof -
  have a: "SessionMiddleware store_client (request_of [] [] []) provider_u1
     = (Responded \<lparr>StatusCode = 401, Body = ''Session token required'' @ [CHR 0x0A]\<rparr>,
        provider_u1)"
    using SessionMiddleware_outcomes [of "request_of [] [] []" store_client provider_u1]
    by (simp add: extract_examples)
  have b: "SessionMiddleware store_client (request_of [] [''zzz''] []) provider_u1
     = (Responded \<lparr>StatusCode = 401, Body = ''Invalid session'' @ [CHR 0x0A]\<rparr>, provider_u1)"
    using SessionMiddleware_outcomes [of "request_of [] [''zzz''] []" store_client provider_u1]
    by (simp add: extract_examples validate_unknown)
  have c: "SessionMiddleware store_client (request_of [] [''abc''] []) provider_u1
     = (NextServeHTTP
          ((request_of [] [''abc''] [])
             \<lparr>Context := (Context (request_of [] [''abc''] []))(''user'' \<mapsto> UserValue user_u1)\<rparr>),
        provider_u1)"
    using SessionMiddleware_outcomes [of "request_of [] [''abc''] []" store_client provider_u1]
    by (simp add: extract_examples validate_abc)
  have d: "GetUserFromContext
        ((Context (request_of [] [''abc''] []))(''user'' \<mapsto> UserValue user_u1)) = Some user_u1"
    by (simp add: GetUserFromContext_def)
  from a b c d show ?thesis by simp
qed

text \<open>
  The claim as stated fails on the body: for a request with no credential and for a
  request with an unknown token, the body written is not the bare message.
\<close>

theorem SessionMiddleware_body_newline:
  "fst (SessionMiddleware store_client (request_of [] [] []) provider_u1)
     = Responded \<lparr>StatusCode = 401, Body = ''Session token required'' @ [CHR 0x0A]\<rparr>
   \<and> ''Session token required'' @ [CHR 0x0A] \<noteq> ''Session token required''
   \<and> fst (SessionMiddleware store_client (request_of [] [''zzz''] []) provider_u1)
     = Responded \<lparr>StatusCode = 401, Body = ''Invalid session'' @ [CHR 0x0A]\<rparr>
   \<and> ''Invalid session'' @ [CHR 0x0A] \<noteq> ''Invalid session''"
  by (simp add: SessionMiddleware_def Let_def extract_examples validate_unknown
        http_Error_def StatusUnauthorized_def)

end
